theory Spec2Isabelle
  imports Complex_Main
begin

section \<open>Numbers and errors\<close>

text \<open>
  Python floats are idealised as reals. Degrees of freedom additionally take the values
  \<^verbatim>\<open>inf\<close> and \<^verbatim>\<open>nan\<close> of \<^verbatim>\<open>GTC/__init__.py\<close>, so they are modelled by
  a type of their own, with the comparisons and tests the code applies to them.
\<close>

datatype pyfloat = Fin real | PInf | MInf | NaN

text \<open>\<^verbatim>\<open>is_infinity = math.isinf\<close> and \<^verbatim>\<open>is_undefined = math.isnan\<close>.\<close>

fun is_infinity :: "pyfloat \<Rightarrow> bool" where
  "is_infinity PInf = True"
| "is_infinity MInf = True"
| "is_infinity _ = False"

fun is_undefined :: "pyfloat \<Rightarrow> bool" where
  "is_undefined NaN = True"
| "is_undefined _ = False"

text \<open>The comparison \<^verbatim>\<open>a < b\<close> of two floats; every comparison with \<^verbatim>\<open>nan\<close> is false.\<close>

fun float_lt :: "pyfloat \<Rightarrow> pyfloat \<Rightarrow> bool" where
  "float_lt NaN _ = False"
| "float_lt _ NaN = False"
| "float_lt _ MInf = False"
| "float_lt MInf _ = True"
| "float_lt PInf _ = False"
| "float_lt (Fin a) PInf = True"
| "float_lt (Fin a) (Fin b) = (a < b)"

fun float_ge :: "pyfloat \<Rightarrow> pyfloat \<Rightarrow> bool" where
  "float_ge NaN _ = False"
| "float_ge _ NaN = False"
| "float_ge _ MInf = True"
| "float_ge MInf _ = False"
| "float_ge PInf _ = True"
| "float_ge (Fin a) PInf = False"
| "float_ge (Fin a) (Fin b) = (a \<ge> b)"

text \<open>The exceptions the modelled code raises, with the fixed part of their message.\<close>

datatype error =
    RuntimeError string
  | ZeroDivisionError string
  | AssertionError
  | ValueError string
  | AttributeError
  | IndexError
  | KeyError

text \<open>
  A statement after a call runs only if the call did not raise: the sequencing of two
  steps, used to write down a run of several calls.
\<close>

definition then_do :: "error + 'a \<Rightarrow> ('a \<Rightarrow> error + 'b) \<Rightarrow> error + 'b" where
  "then_do m f = (case m of Inl e \<Rightarrow> Inl e | Inr a \<Rightarrow> f a)"

text \<open>\<^verbatim>\<open>math.sqrt\<close> raises on a negative argument.\<close>

definition math_sqrt :: "real \<Rightarrow> error + real" where
  "math_sqrt a = (if a < 0 then Inl (ValueError ''math domain error'') else Inr (sqrt a))"

text \<open>\<^verbatim>\<open>math.log\<close> raises on a non-positive argument.\<close>

definition math_log :: "real \<Rightarrow> error + real" where
  "math_log a = (if a \<le> 0 then Inl (ValueError ''math domain error'') else Inr (ln a))"

text \<open>
  The float power \<^verbatim>\<open>l**r\<close>: zero to a negative power and a negative base with a
  fractional exponent raise.
\<close>

definition float_pow :: "real \<Rightarrow> real \<Rightarrow> error + real" where
  "float_pow l r =
     (if r = 0 then Inr 1
      else if l = 0 then
        (if r < 0 then Inl (ZeroDivisionError ''0.0 cannot be raised to a negative power'')
         else Inr 0)
      else if l < 0 then
        (if r \<in> \<int> then Inr (power_int l (\<lfloor>r\<rfloor>))
         else Inl (ValueError ''negative number cannot be raised to a fractional power''))
      else Inr (l powr r))"

section \<open>Sensitivity vectors\<close>

text \<open>
  Modelled from the spec: the module \<^verbatim>\<open>GTC/vector.py\<close> is not among the sources.
  A vector is a unique-keyed, id-ordered map from nodes to coefficients; a node is
  referred to by its uid.
\<close>

type_synonym vector = "(nat \<times> real) list"

text \<open>\<^verbatim>\<open>v.keys()\<close> and \<^verbatim>\<open>v.values()\<close>, in id order.\<close>

definition vector_keys :: "vector \<Rightarrow> nat list" where
  "vector_keys v = map fst v"

definition vector_values :: "vector \<Rightarrow> real list" where
  "vector_values v = map snd v"

text \<open>\<^verbatim>\<open>v.get(k,0.0)\<close>.\<close>

definition vget :: "vector \<Rightarrow> nat \<Rightarrow> real" where
  "vget v k = (case map_of v k of None \<Rightarrow> 0 | Some c \<Rightarrow> c)"

text \<open>Modelled from the spec: \<open>scale(v,c)\<close> multiplies all coefficients by \<open>c\<close>.\<close>

definition scale_vector :: "vector \<Rightarrow> real \<Rightarrow> vector" where
  "scale_vector v c = map (\<lambda>(k, x). (k, c * x)) v"

text \<open>
  Modelled from the spec: \<open>mergeWeighted(a,ca,b,cb)\<close> has the union of the keys, in id
  order, and \<open>result[n] = ca\<cdot>a[n] + cb\<cdot>b[n]\<close>.
\<close>

fun merge_weighted_vectors :: "vector \<Rightarrow> real \<Rightarrow> vector \<Rightarrow> real \<Rightarrow> vector" where
  "merge_weighted_vectors [] ca b cb = scale_vector b cb"
| "merge_weighted_vectors a ca [] cb = scale_vector a ca"
| "merge_weighted_vectors ((k, x) # a) ca ((l, y) # b) cb =
     (if k < l then (k, ca * x) # merge_weighted_vectors a ca ((l, y) # b) cb
      else if l < k then (l, cb * y) # merge_weighted_vectors ((k, x) # a) ca b cb
      else (k, ca * x + cb * y) # merge_weighted_vectors a ca b cb)"

text \<open>
  Modelled from the spec: \<open>merge(a,b)\<close> has the union of the keys, in id order;
  coefficients add where a key appears in both.
\<close>

fun merge_vectors :: "vector \<Rightarrow> vector \<Rightarrow> vector" where
  "merge_vectors [] b = b"
| "merge_vectors a [] = a"
| "merge_vectors ((k, x) # a) ((l, y) # b) =
     (if k < l then (k, x) # merge_vectors a ((l, y) # b)
      else if l < k then (l, y) # merge_vectors ((k, x) # a) b
      else (k, x + y) # merge_vectors a b)"

text \<open>
  Modelled from the spec: \<open>extend(a,b)\<close> has the union of the keys, zero-filled: the
  coefficients of \<open>a\<close>, and \<open>0\<close> at the keys only \<open>b\<close> has.
\<close>

definition extend_vector :: "vector \<Rightarrow> vector \<Rightarrow> vector" where
  "extend_vector a b = merge_weighted_vectors a 1 b 0"

section \<open>Nodes and the registry\<close>

text \<open>
  Modelled from the spec: the module \<^verbatim>\<open>GTC/nodes.py\<close> is not among the sources.
  A leaf node has a uid, a label, the declared uncertainty and degrees of freedom, the
  independence flag, a correlation map from uids to coefficients, an ensemble (a set of
  uids, empty when the leaf belongs to none) and an optional complex-pair id. The uid is
  the key under which the registry holds the leaf, so it is not repeated in the record:
  two leaf objects are the same object exactly when their uids are equal.
\<close>

record Leaf =
  leaf_label :: "string option"
  leaf_u :: real
  leaf_df :: pyfloat
  leaf_independent :: bool
  leaf_correlation :: "nat \<rightharpoonup> real"
  leaf_ensemble :: "nat set"
  leaf_complex :: "(nat \<times> nat) option"

text \<open>
  What the \<^verbatim>\<open>_node\<close> slot of an uncertain real refers to: a registered leaf (by
  its uid; the leaf object lives in the registry, where its correlation map is mutated),
  the unidentified leaf of a constant (\<^verbatim>\<open>Leaf(uid=None,label=label,u=0.0,df=inf)\<close>), or
  the \<^verbatim>\<open>Node(uid,label,u)\<close> of an intermediate result.
\<close>

datatype node =
    LeafRef nat
  | ConstLeaf "string option"
  | NodeObj nat "string option" real

text \<open>
  Modelled from the spec: the registry (\<^verbatim>\<open>_context\<close>, defined in
  \<^verbatim>\<open>GTC/context.py\<close>, which is not among the sources) allocates the ids of
  elementary and intermediate nodes and owns the leaf objects.
\<close>

record Context =
  next_elementary :: nat
  next_intermediate :: nat
  leaves :: "nat \<Rightarrow> Leaf"
  registered_intermediate_nodes :: "nat \<rightharpoonup> node"

text \<open>The registry before anything is declared; an unused uid holds a blank leaf.\<close>

definition Context_init :: Context where
  "Context_init =
     \<lparr>next_elementary = 0, next_intermediate = 0,
      leaves = (\<lambda>_. \<lparr>leaf_label = None, leaf_u = 0, leaf_df = PInf,
                        leaf_independent = True, leaf_correlation = Map.empty,
                        leaf_ensemble = {}, leaf_complex = None\<rparr>),
      registered_intermediate_nodes = Map.empty\<rparr>"

definition next_elementary_id :: "Context \<Rightarrow> nat \<times> Context" where
  "next_elementary_id c = (next_elementary c, c\<lparr>next_elementary := Suc (next_elementary c)\<rparr>)"

definition next_intermediate_id :: "Context \<Rightarrow> nat \<times> Context" where
  "next_intermediate_id c =
     (next_intermediate c, c\<lparr>next_intermediate := Suc (next_intermediate c)\<rparr>)"

definition new_leaf ::
  "Context \<Rightarrow> nat \<Rightarrow> string option \<Rightarrow> real \<Rightarrow> pyfloat \<Rightarrow> bool \<Rightarrow> Context" where
  "new_leaf c uid label u df indep =
     c\<lparr>leaves := (leaves c)(uid :=
         \<lparr>leaf_label = label, leaf_u = u, leaf_df = df,
          leaf_independent = indep, leaf_correlation = Map.empty,
          leaf_ensemble = {}, leaf_complex = None\<rparr>)\<rparr>"

text \<open>\<^verbatim>\<open>k_i.correlation.get(k_j.uid,0.0)\<close>.\<close>

definition correlation_get :: "Context \<Rightarrow> nat \<Rightarrow> nat \<Rightarrow> real" where
  "correlation_get c i j =
     (case leaf_correlation (leaves c i) j of None \<Rightarrow> 0 | Some r \<Rightarrow> r)"

section \<open>Uncertain real numbers\<close>

text \<open>
  The class \<^verbatim>\<open>UncertainReal\<close> of \<^verbatim>\<open>lib_real.py\<close>, slot by slot. The slot
  \<^verbatim>\<open>_context\<close> holds a reference to a context object, or \<^verbatim>\<open>None\<close>; the slot
  \<^verbatim>\<open>_u\<close> is unset until a property caches the standard uncertainty in it.
\<close>

record UncertainReal =
  ur_context :: "nat option"
  ur_x :: real
  ur_u :: "real option"
  u_components :: vector
  d_components :: vector
  i_components :: vector
  is_elementary :: bool
  is_intermediate :: bool
  ur_node :: "node option"

text \<open>
  \<^verbatim>\<open>UncertainReal.__init__\<close>: a number is elementary when its node is a leaf with a
  uid, and intermediate when its node is a \<^verbatim>\<open>Node\<close>.
\<close>

definition UncertainReal_init ::
  "nat option \<Rightarrow> real \<Rightarrow> vector \<Rightarrow> vector \<Rightarrow> vector \<Rightarrow> node option \<Rightarrow> UncertainReal" where
  "UncertainReal_init context x u_comp d_comp i_comp nd =
     \<lparr>ur_context = context, ur_x = x, ur_u = None,
      u_components = u_comp, d_components = d_comp, i_components = i_comp,
      is_elementary = (case nd of Some (LeafRef _) \<Rightarrow> True | _ \<Rightarrow> False),
      is_intermediate = (case nd of Some (NodeObj _ _ _) \<Rightarrow> True | _ \<Rightarrow> False),
      ur_node = nd\<rparr>"

definition is_uncertain_real_constant :: "UncertainReal \<Rightarrow> bool" where
  "is_uncertain_real_constant x =
     (length (u_components x) = 0 \<and> length (d_components x) = 0)"

definition UncertainReal_constant :: "real \<Rightarrow> string option \<Rightarrow> UncertainReal" where
  "UncertainReal_constant x label = UncertainReal_init None x [] [] [] (Some (ConstLeaf label))"

text \<open>
  \<^verbatim>\<open>UncertainReal.elementary\<close>: the two parameter checks, then a leaf id is allocated,
  the leaf is registered, and the number is built with the leaf in the vector of
  independent or of dependent components.
\<close>

definition UncertainReal_elementary ::
  "Context \<Rightarrow> real \<Rightarrow> real \<Rightarrow> pyfloat \<Rightarrow> string option \<Rightarrow> bool
     \<Rightarrow> error + (Context \<times> UncertainReal)" where
  "UncertainReal_elementary c x u df label indep =
     (if float_lt df (Fin 1) then Inl (RuntimeError ''invalid degrees of freedom'')
      else if u < 0 then Inl (RuntimeError ''invalid uncertainty'')
      else
        (let (uid, c1) = next_elementary_id c;
             c2 = new_leaf c1 uid label u df indep
         in if indep
            then Inr (c2, UncertainReal_init None x [(uid, u)] [] [] (Some (LeafRef uid)))
            else Inr (c2, UncertainReal_init None x [] [(uid, u)] [] (Some (LeafRef uid)))))"

subsection \<open>Variance and covariance\<close>

text \<open>
  \<^verbatim>\<open>std_variance_real\<close>: the squares of the independent components, then the loop
  over the dependent components, which adds to \<^verbatim>\<open>var\<close> the square of each and its
  cross terms with the components after it.
\<close>

definition cross_terms :: "Context \<Rightarrow> nat \<Rightarrow> real \<Rightarrow> vector \<Rightarrow> real" where
  "cross_terms c k_i u_i rest =
     sum_list (map (\<lambda>(k_j, u_j). 2 * u_i * correlation_get c k_i k_j * u_j) rest)"

fun std_variance_d_loop :: "Context \<Rightarrow> real \<Rightarrow> vector \<Rightarrow> real" where
  "std_variance_d_loop c var [] = var"
| "std_variance_d_loop c var ((k_i, u_i) # rest) =
     std_variance_d_loop c (var + u_i * u_i + cross_terms c k_i u_i rest) rest"

definition std_variance_real :: "Context \<Rightarrow> UncertainReal \<Rightarrow> real" where
  "std_variance_real c x =
     (let var = (if length (u_components x) \<noteq> 0
                 then sum_list (map (\<lambda>u_i. u_i * u_i) (vector_values (u_components x)))
                 else 0)
      in if length (d_components x) \<noteq> 0
         then std_variance_d_loop c var (d_components x)
         else var)"

text \<open>
  \<^verbatim>\<open>std_covariance_real\<close>: an independent influence contributes when it influences
  both numbers; the dependent influences contribute through the correlation maps.
\<close>

fun std_covariance_d_loop :: "Context \<Rightarrow> real \<Rightarrow> vector \<Rightarrow> vector \<Rightarrow> real" where
  "std_covariance_d_loop c cv [] d2 = cv"
| "std_covariance_d_loop c cv ((k1_i, u1_i) # rest) d2 =
     std_covariance_d_loop c
       (cv + sum_list (map (\<lambda>(k2_i, u2_i). u1_i * correlation_get c k1_i k2_i * u2_i) d2))
       rest d2"

definition std_covariance_real :: "Context \<Rightarrow> UncertainReal \<Rightarrow> UncertainReal \<Rightarrow> real" where
  "std_covariance_real c x1 x2 =
     std_covariance_d_loop c
       (sum_list (map (\<lambda>(k1_i, u1_i). u1_i * vget (u_components x2) k1_i) (u_components x1)))
       (d_components x1) (d_components x2)"

subsection \<open>The properties \<^verbatim>\<open>u\<close> and \<^verbatim>\<open>v\<close>\<close>

text \<open>\<^verbatim>\<open>self._node.u\<close> and \<^verbatim>\<open>self._node.df\<close>; a missing attribute raises.\<close>

definition node_u :: "Context \<Rightarrow> node option \<Rightarrow> error + real" where
  "node_u c nd =
     (case nd of
        Some (LeafRef uid) \<Rightarrow> Inr (leaf_u (leaves c uid))
      | Some (ConstLeaf _) \<Rightarrow> Inr 0
      | Some (NodeObj _ _ u) \<Rightarrow> Inr u
      | None \<Rightarrow> Inl AttributeError)"

definition node_df :: "Context \<Rightarrow> node option \<Rightarrow> error + pyfloat" where
  "node_df c nd =
     (case nd of
        Some (LeafRef uid) \<Rightarrow> Inr (leaf_df (leaves c uid))
      | Some (ConstLeaf _) \<Rightarrow> Inr PInf
      | Some (NodeObj _ _ _) \<Rightarrow> Inl AttributeError
      | None \<Rightarrow> Inl AttributeError)"

text \<open>
  The property \<^verbatim>\<open>u\<close> returns the cached value if there is one; otherwise it caches
  the uncertainty of the node (elementary and intermediate numbers) or the square root
  of the variance. The value is returned with the object as the call leaves it.
\<close>

definition u_prop :: "Context \<Rightarrow> UncertainReal \<Rightarrow> error + (real \<times> UncertainReal)" where
  "u_prop c self =
     (case ur_u self of
        Some u \<Rightarrow> Inr (u, self)
      | None \<Rightarrow>
          (if is_elementary self \<or> is_intermediate self
           then (case node_u c (ur_node self) of
                   Inl e \<Rightarrow> Inl e
                 | Inr u \<Rightarrow> Inr (u, self\<lparr>ur_u := Some u\<rparr>))
           else (case math_sqrt (std_variance_real c self) of
                   Inl e \<Rightarrow> Inl e
                 | Inr u \<Rightarrow> Inr (u, self\<lparr>ur_u := Some u\<rparr>))))"

definition v_prop :: "Context \<Rightarrow> UncertainReal \<Rightarrow> error + (real \<times> UncertainReal)" where
  "v_prop c self =
     (case ur_u self of
        Some u \<Rightarrow> Inr (u * u, self)
      | None \<Rightarrow>
          (if is_elementary self \<or> is_intermediate self
           then (case node_u c (ur_node self) of
                   Inl e \<Rightarrow> Inl e
                 | Inr u \<Rightarrow> Inr (u * u, self\<lparr>ur_u := Some u\<rparr>))
           else (let v = std_variance_real c self
                 in case math_sqrt v of
                      Inl e \<Rightarrow> Inl e
                    | Inr u \<Rightarrow> Inr (v, self\<lparr>ur_u := Some u\<rparr>))))"

subsection \<open>Welch-Satterthwaite\<close>

text \<open>
  The variables of \<^verbatim>\<open>welch_satterthwaite\<close> that its loops update: the variance, the
  parallel lists of component variances and their degrees of freedom, the dictionary of
  ensemble totals (keyed by the frozen ensemble, in insertion order), and the flag for the
  second half of a complex pair.
\<close>

record ws_state =
  ws_var :: real
  cpts_lst :: "real list"
  dof_lst :: "pyfloat list"
  cpts_map :: "(nat set \<times> real \<times> pyfloat) list"
  finish_complex :: bool

text \<open>\<^verbatim>\<open>cpts_lst[-1] += c\<close>: an empty list has no last item.\<close>

fun add_to_last :: "real list \<Rightarrow> real \<Rightarrow> error + real list" where
  "add_to_last [] c = Inl IndexError"
| "add_to_last [v] c = Inr [v + c]"
| "add_to_last (v # vs) c =
     (case add_to_last vs c of Inl e \<Rightarrow> Inl e | Inr vs' \<Rightarrow> Inr (v # vs'))"

text \<open>\<^verbatim>\<open>ensemble_i in cpts_map\<close> and \<^verbatim>\<open>cpts_map[ensemble_i][0] += c\<close>.\<close>

definition in_cpts_map :: "nat set \<Rightarrow> (nat set \<times> real \<times> pyfloat) list \<Rightarrow> bool" where
  "in_cpts_map e m = (map_of m e \<noteq> None)"

fun add_to_ensemble ::
  "(nat set \<times> real \<times> pyfloat) list \<Rightarrow> nat set \<Rightarrow> real
     \<Rightarrow> error + (nat set \<times> real \<times> pyfloat) list" where
  "add_to_ensemble [] e c = Inl KeyError"
| "add_to_ensemble ((e', v, df) # m) e c =
     (if e' = e then Inr ((e', v + c, df) # m)
      else (case add_to_ensemble m e c of
              Inl err \<Rightarrow> Inl err
            | Inr m' \<Rightarrow> Inr ((e', v, df) # m')))"

text \<open>
  The inner loop over the influences after \<^verbatim>\<open>k_i\<close>. A registered correlation adds
  its covariance to the variance; it is accepted when both influences have infinite
  degrees of freedom, when \<^verbatim>\<open>k_j\<close> is in the ensemble of \<^verbatim>\<open>k_i\<close>, or when the two
  are the halves of a complex pair. Otherwise the code sets \<^verbatim>\<open>df = nan\<close> and then
  executes \<^verbatim>\<open>assert False\<close>.
\<close>

fun ws_inner ::
  "Context \<Rightarrow> nat \<Rightarrow> real \<Rightarrow> bool \<Rightarrow> nat set \<Rightarrow> (nat \<times> nat) option
     \<Rightarrow> vector \<Rightarrow> ws_state \<Rightarrow> error + ws_state" where
  "ws_inner c k_i u_i nu_i_infinite ensemble_i complex_id [] st = Inr st"
| "ws_inner c k_i u_i nu_i_infinite ensemble_i complex_id ((k_j, u_j) # rest) st =
     (case leaf_correlation (leaves c k_i) k_j of
        None \<Rightarrow> ws_inner c k_i u_i nu_i_infinite ensemble_i complex_id rest st
      | Some r \<Rightarrow>
          (let covar_ij = 2 * u_i * r * u_j;
               st1 = st\<lparr>ws_var := ws_var st + covar_ij\<rparr>
           in if nu_i_infinite \<and> is_infinity (leaf_df (leaves c k_j))
              then ws_inner c k_i u_i nu_i_infinite ensemble_i complex_id rest st1
              else if k_j \<in> ensemble_i
              then (case add_to_ensemble (cpts_map st1) ensemble_i covar_ij of
                      Inl e \<Rightarrow> Inl e
                    | Inr m \<Rightarrow>
                        ws_inner c k_i u_i nu_i_infinite ensemble_i complex_id rest
                          (st1\<lparr>cpts_map := m\<rparr>))
              else if complex_id = Some (k_i, k_j)
              then (case add_to_last (cpts_lst st1) covar_ij of
                      Inl e \<Rightarrow> Inl e
                    | Inr l \<Rightarrow>
                        ws_inner c k_i u_i nu_i_infinite ensemble_i complex_id rest
                          (st1\<lparr>cpts_lst := l\<rparr>))
              else Inl AssertionError))"

text \<open>
  The part of the loop body that files the variance \<^verbatim>\<open>v_i\<close> of an influence: with its
  ensemble, with the first half of its complex pair, or as a component of its own.
\<close>

definition ws_file_variance ::
  "nat set \<Rightarrow> real \<Rightarrow> pyfloat \<Rightarrow> ws_state \<Rightarrow> error + ws_state" where
  "ws_file_variance ensemble_i v_i df_i st =
     (if in_cpts_map ensemble_i (cpts_map st)
      then (case add_to_ensemble (cpts_map st) ensemble_i v_i of
              Inl e \<Rightarrow> Inl e
            | Inr m \<Rightarrow> Inr (st\<lparr>cpts_map := m\<rparr>))
      else if finish_complex st
      then (case add_to_last (cpts_lst st) v_i of
              Inl e \<Rightarrow> Inl e
            | Inr l \<Rightarrow> Inr (st\<lparr>cpts_lst := l\<rparr>))
      else Inr (st\<lparr>cpts_lst := cpts_lst st @ [v_i], dof_lst := dof_lst st @ [df_i]\<rparr>))"

text \<open>
  The loop over the dependent influences: every influence but the last is filed, sets the
  flag for its complex pair and is compared with the influences after it; the last one is
  only filed.
\<close>

fun ws_dependent :: "Context \<Rightarrow> vector \<Rightarrow> ws_state \<Rightarrow> error + ws_state" where
  "ws_dependent c [] st = Inr st"
| "ws_dependent c [(k_i, u_i)] st =
     (let v_i = u_i * u_i;
          df_i = leaf_df (leaves c k_i);
          st1 = st\<lparr>ws_var := ws_var st + v_i\<rparr>
      in ws_file_variance (leaf_ensemble (leaves c k_i)) v_i df_i st1)"
| "ws_dependent c ((k_i, u_i) # (k_n, u_n) # rest) st =
     (let v_i = u_i * u_i;
          st1 = st\<lparr>ws_var := ws_var st + v_i\<rparr>;
          df_i = leaf_df (leaves c k_i);
          complex_id = leaf_complex (leaves c k_i);
          ensemble_i = leaf_ensemble (leaves c k_i);
          st2 = (if ensemble_i \<noteq> {} \<and> \<not> in_cpts_map ensemble_i (cpts_map st1)
                 then st1\<lparr>cpts_map := cpts_map st1 @ [(ensemble_i, 0, df_i)]\<rparr>
                 else st1)
      in case ws_file_variance ensemble_i v_i df_i st2 of
           Inl e \<Rightarrow> Inl e
         | Inr st3 \<Rightarrow>
             (let st4 = st3\<lparr>finish_complex := (complex_id = Some (k_i, k_n))\<rparr>
              in case ws_inner c k_i u_i (is_infinity df_i) ensemble_i complex_id
                        ((k_n, u_n) # rest) st4 of
                   Inl e \<Rightarrow> Inl e
                 | Inr st5 \<Rightarrow> ws_dependent c ((k_n, u_n) # rest) st5))"

text \<open>
  The final sum \<^verbatim>\<open>den\<close> over the components with finite degrees of freedom. A zero
  degree of freedom divides by zero outside the \<^verbatim>\<open>try\<close>; an undefined one makes the
  sum undefined.
\<close>

fun ws_den :: "real \<Rightarrow> pyfloat \<Rightarrow> (real \<times> pyfloat) list \<Rightarrow> error + pyfloat" where
  "ws_den var den [] = Inr den"
| "ws_den var den ((v_i, dof_i) # rest) =
     (if is_infinity dof_i then ws_den var den rest
      else (let u2 = v_i / var
            in case dof_i of
                 Fin d \<Rightarrow>
                   (if d = 0 then Inl (ZeroDivisionError ''float division by zero'')
                    else (case den of
                            Fin s \<Rightarrow> ws_den var (Fin (s + u2 * u2 / d)) rest
                          | _ \<Rightarrow> ws_den var NaN rest))
               | _ \<Rightarrow> ws_den var NaN rest))"

text \<open>
  \<^verbatim>\<open>welch_satterthwaite\<close>, returning the variance and the degrees of freedom, and the
  object as the call leaves it (the property \<^verbatim>\<open>v\<close> caches the uncertainty).
\<close>

definition welch_satterthwaite ::
  "Context \<Rightarrow> UncertainReal \<Rightarrow> error + ((real \<times> pyfloat) \<times> UncertainReal)" where
  "welch_satterthwaite c x =
     (if is_elementary x
      then (case v_prop c x of
              Inl e \<Rightarrow> Inl e
            | Inr (v, x1) \<Rightarrow>
                (case node_df c (ur_node x1) of
                   Inl e \<Rightarrow> Inl e
                 | Inr df \<Rightarrow> Inr ((v, df), x1)))
      else if is_uncertain_real_constant x then Inr ((0, PInf), x)
      else
        (let u_values = vector_values (u_components x);
             u_dof = map (\<lambda>k_i. leaf_df (leaves c k_i)) (vector_keys (u_components x));
             d_dof = map (\<lambda>k_i. leaf_df (leaves c k_i)) (vector_keys (d_components x));
             degrees_of_freedom = u_dof @ d_dof
         in if count_list degrees_of_freedom PInf = length degrees_of_freedom
            then (case v_prop c x of
                    Inl e \<Rightarrow> Inl e
                  | Inr (v, x1) \<Rightarrow> Inr ((v, PInf), x1))
            else
              (let st0 = \<lparr>ws_var = sum_list (map (\<lambda>u_i. u_i * u_i) u_values),
                          cpts_lst = map (\<lambda>u_i. u_i * u_i) u_values,
                          dof_lst = u_dof,
                          cpts_map = [],
                          finish_complex = False\<rparr>
               in case ws_dependent c (d_components x) st0 of
                    Inl e \<Rightarrow> Inl e
                  | Inr st \<Rightarrow>
                      (let var = ws_var st;
                           cpts = cpts_lst st @ map (\<lambda>(e, v_i, df_i). v_i) (cpts_map st);
                           dofs = dof_lst st @ map (\<lambda>(e, v_i, df_i). df_i) (cpts_map st)
                       in if var = 0 then Inr ((var, NaN), x)
                          else (case ws_den var (Fin 0) (zip cpts dofs) of
                                  Inl e \<Rightarrow> Inl e
                                | Inr (Fin den) \<Rightarrow>
                                    (if den = 0 then Inr ((var, PInf), x)
                                     else Inr ((var, Fin (1 / den)), x))
                                | Inr _ \<Rightarrow> Inr ((var, NaN), x))))))"

text \<open>The property \<^verbatim>\<open>df\<close>.\<close>

definition df_prop :: "Context \<Rightarrow> UncertainReal \<Rightarrow> error + (pyfloat \<times> UncertainReal)" where
  "df_prop c self =
     (if is_elementary self
      then (case node_df c (ur_node self) of
              Inl e \<Rightarrow> Inl e
            | Inr df \<Rightarrow> Inr (df, self))
      else (case welch_satterthwaite c self of
              Inl e \<Rightarrow> Inl e
            | Inr ((v, df), self1) \<Rightarrow> Inr (df, self1)))"

subsection \<open>Registration as an intermediate result\<close>

text \<open>
  \<^verbatim>\<open>UncertainReal.intermediate\<close> changes the number in place and registers its new
  node; the model returns the registry and the number as the call leaves them. Nothing
  happens to an elementary number, nor to a number that is intermediate already.
\<close>

definition UncertainReal_intermediate ::
  "Context \<Rightarrow> UncertainReal \<Rightarrow> string option \<Rightarrow> error + (Context \<times> UncertainReal)" where
  "UncertainReal_intermediate c un label =
     (if \<not> is_elementary un
      then (if \<not> is_intermediate un
            then (let (uid, c1) = next_intermediate_id c
                  in case u_prop c1 un of
                       Inl e \<Rightarrow> Inl e
                     | Inr (u, un1) \<Rightarrow>
                         (let nd = NodeObj uid label u;
                              un2 = un1\<lparr>ur_node := Some nd,
                                        i_components :=
                                          merge_vectors (i_components un1) [(uid, u)],
                                        is_intermediate := True\<rparr>
                          in Inr (c1\<lparr>registered_intermediate_nodes :=
                                       (registered_intermediate_nodes c1)(uid \<mapsto> nd)\<rparr>,
                                  un2)))
            else Inr (c, un))
      else Inr (c, un))"

subsection \<open>Arithmetic\<close>

text \<open>
  The right operand of the binary functions \<^verbatim>\<open>_add\<close>, \<^verbatim>\<open>_sub\<close>, \<^verbatim>\<open>_mul\<close>,
  \<^verbatim>\<open>_div\<close> and \<^verbatim>\<open>_pow\<close>: an uncertain real number or a plain real number. (A
  complex operand is handed on to functions that build an uncertain complex number
  through the context object; they are not part of this development.) The functions are
  named \<open>ureal_add\<close> and so on here.
\<close>

datatype operand = UReal UncertainReal | Number real

definition ureal_add :: "UncertainReal \<Rightarrow> operand \<Rightarrow> error + UncertainReal" where
  "ureal_add lhs rhs =
     (case rhs of
        UReal r \<Rightarrow>
          Inr (UncertainReal_init (ur_context lhs) (ur_x lhs + ur_x r)
                 (merge_vectors (u_components lhs) (u_components r))
                 (merge_vectors (d_components lhs) (d_components r))
                 (merge_vectors (i_components lhs) (i_components r))
                 None)
      | Number r \<Rightarrow>
          (if r = 0 then Inr lhs
           else Inr (UncertainReal_init (ur_context lhs) (ur_x lhs + r)
                       (scale_vector (u_components lhs) 1)
                       (scale_vector (d_components lhs) 1)
                       (scale_vector (i_components lhs) 1)
                       None)))"

definition ureal_sub :: "UncertainReal \<Rightarrow> operand \<Rightarrow> error + UncertainReal" where
  "ureal_sub lhs rhs =
     (case rhs of
        UReal r \<Rightarrow>
          Inr (UncertainReal_init (ur_context lhs) (ur_x lhs - ur_x r)
                 (merge_weighted_vectors (u_components lhs) 1 (u_components r) (- 1))
                 (merge_weighted_vectors (d_components lhs) 1 (d_components r) (- 1))
                 (merge_weighted_vectors (i_components lhs) 1 (i_components r) (- 1))
                 None)
      | Number r \<Rightarrow>
          (if r = 0 then Inr lhs
           else Inr (UncertainReal_init (ur_context lhs) (ur_x lhs - r)
                       (scale_vector (u_components lhs) 1)
                       (scale_vector (d_components lhs) 1)
                       (scale_vector (i_components lhs) 1)
                       None)))"

definition ureal_mul :: "UncertainReal \<Rightarrow> operand \<Rightarrow> error + UncertainReal" where
  "ureal_mul lhs rhs =
     (case rhs of
        UReal rh \<Rightarrow>
          (let l = ur_x lhs; r = ur_x rh
           in Inr (UncertainReal_init (ur_context lhs) (l * r)
                     (merge_weighted_vectors (u_components lhs) r (u_components rh) l)
                     (merge_weighted_vectors (d_components lhs) r (d_components rh) l)
                     (merge_weighted_vectors (i_components lhs) r (i_components rh) l)
                     None))
      | Number r \<Rightarrow>
          (if r = 1 then Inr lhs
           else Inr (UncertainReal_init (ur_context lhs) (ur_x lhs * r)
                       (scale_vector (u_components lhs) r)
                       (scale_vector (d_components lhs) r)
                       (scale_vector (i_components lhs) r)
                       None)))"

definition ureal_div :: "UncertainReal \<Rightarrow> operand \<Rightarrow> error + UncertainReal" where
  "ureal_div lhs rhs =
     (case rhs of
        UReal rh \<Rightarrow>
          (let r = ur_x rh; l = ur_x lhs
           in if r = 0 then Inl (ZeroDivisionError ''float division by zero'')
              else (let y = l / r; dy_dl = 1 / r; dy_dr = - y / r
                    in Inr (UncertainReal_init (ur_context lhs) y
                              (merge_weighted_vectors (u_components lhs) dy_dl
                                 (u_components rh) dy_dr)
                              (merge_weighted_vectors (d_components lhs) dy_dl
                                 (d_components rh) dy_dr)
                              (merge_weighted_vectors (i_components lhs) dy_dl
                                 (i_components rh) dy_dr)
                              None)))
      | Number r \<Rightarrow>
          (if r = 1 then Inr lhs
           else if r = 0 then Inl (ZeroDivisionError ''float division by zero'')
           else (let y = ur_x lhs / r; dy_dl = 1 / r
                 in Inr (UncertainReal_init (ur_context lhs) y
                           (scale_vector (u_components lhs) dy_dl)
                           (scale_vector (d_components lhs) dy_dl)
                           (scale_vector (i_components lhs) dy_dl)
                           None))))"

text \<open>
  \<^verbatim>\<open>_pow\<close> returns the plain number \<^verbatim>\<open>1.0\<close> for the exponent \<^verbatim>\<open>0\<close>, its left
  operand for the exponent \<^verbatim>\<open>1\<close>, and a new uncertain number otherwise.
\<close>

datatype pow_result = PlainFloat real | Uncertain UncertainReal

definition ureal_pow :: "UncertainReal \<Rightarrow> operand \<Rightarrow> error + pow_result" where
  "ureal_pow lhs rhs =
     (case rhs of
        UReal rh \<Rightarrow>
          (let r = ur_x rh; l = ur_x lhs
           in case float_pow l r of
                Inl e \<Rightarrow> Inl e
              | Inr y \<Rightarrow>
                  (case float_pow l (r - 1) of
                     Inl e \<Rightarrow> Inl e
                   | Inr p \<Rightarrow>
                       (let dy_dl = r * p
                        in case (if l \<noteq> 0
                                 then (case math_log \<bar>l\<bar> of
                                         Inl e \<Rightarrow> Inl e
                                       | Inr lg \<Rightarrow> Inr (lg * y))
                                 else Inr 0) of
                             Inl e \<Rightarrow> Inl e
                           | Inr dy_dr \<Rightarrow>
                               Inr (Uncertain
                                 (UncertainReal_init (ur_context lhs) y
                                    (merge_weighted_vectors (u_components lhs) dy_dl
                                       (u_components rh) dy_dr)
                                    (merge_weighted_vectors (d_components lhs) dy_dl
                                       (d_components rh) dy_dr)
                                    (merge_weighted_vectors (i_components lhs) dy_dl
                                       (i_components rh) dy_dr)
                                    None)))))
      | Number r \<Rightarrow>
          (if r = 0 then Inr (PlainFloat 1)
           else if r = 1 then Inr (Uncertain lhs)
           else (let l = ur_x lhs
                 in case float_pow l r of
                      Inl e \<Rightarrow> Inl e
                    | Inr y \<Rightarrow>
                        (case float_pow l (r - 1) of
                           Inl e \<Rightarrow> Inl e
                         | Inr p \<Rightarrow>
                             (let dy_dl = r * p
                              in Inr (Uncertain
                                   (UncertainReal_init (ur_context lhs) y
                                      (scale_vector (u_components lhs) dy_dl)
                                      (scale_vector (d_components lhs) dy_dl)
                                      (scale_vector (i_components lhs) dy_dl)
                                      None)))))))"

text \<open>\<^verbatim>\<open>math.atan2(y,x)\<close>.\<close>

definition math_atan2 :: "real \<Rightarrow> real \<Rightarrow> real" where
  "math_atan2 y x =
     (if x > 0 then arctan (y / x)
      else if x < 0 then (if y \<ge> 0 then arctan (y / x) + pi else arctan (y / x) - pi)
      else if y > 0 then pi / 2
      else if y < 0 then - pi / 2
      else 0)"

text \<open>
  \<^verbatim>\<open>_atan2_re_re\<close> begins with \<^verbatim>\<open>assert context == rhs._context\<close>.
\<close>

definition ureal_atan2_re_re :: "UncertainReal \<Rightarrow> UncertainReal \<Rightarrow> error + UncertainReal" where
  "ureal_atan2_re_re lhs rhs =
     (let context = ur_context lhs
      in if context \<noteq> ur_context rhs then Inl AssertionError
         else
           (let x = ur_x rhs; y = ur_x lhs;
                den = x\<^sup>2 + y\<^sup>2;
                dz_dx = (if den = 0 then 0 else - y / den);
                dz_dy = (if den = 0 then 0 else x / den)
            in Inr (UncertainReal_init (ur_context lhs) (math_atan2 y x)
                      (merge_weighted_vectors (u_components lhs) dz_dy (u_components rhs) dz_dx)
                      (merge_weighted_vectors (d_components lhs) dz_dy (d_components rhs) dz_dx)
                      (merge_weighted_vectors (i_components lhs) dz_dy (i_components rhs) dz_dx)
                      None)))"

text \<open>
  \<^verbatim>\<open>UncertainReal._magnitude\<close>: undefined at the origin; elsewhere the derivative is
  \<^verbatim>\<open>math.copysign(1.0,x)\<close>.
\<close>

definition ureal_magnitude :: "UncertainReal \<Rightarrow> error + UncertainReal" where
  "ureal_magnitude self =
     (let x = ur_x self
      in if x = 0
         then Inl (ZeroDivisionError
                     ''Cannot take |x| of an uncertain real number when x==0'')
         else (let dy_dx = (if x < 0 then - 1 else 1)
               in Inr (UncertainReal_init (ur_context self) \<bar>x\<bar>
                         (scale_vector (u_components self) dy_dx)
                         (scale_vector (d_components self) dy_dx)
                         (scale_vector (i_components self) dy_dx)
                         None)))"

subsection \<open>Correlation\<close>

text \<open>
  \<^verbatim>\<open>set_correlation_real\<close> writes the coefficient into the correlation maps of both
  leaves; the model returns the registry with the two maps updated.
\<close>

definition set_leaf_correlation :: "Context \<Rightarrow> nat \<Rightarrow> nat \<Rightarrow> real \<Rightarrow> Context" where
  "set_leaf_correlation c i j r =
     c\<lparr>leaves := (leaves c)(i := (leaves c i)
         \<lparr>leaf_correlation := (leaf_correlation (leaves c i))(j \<mapsto> r)\<rparr>)\<rparr>"

definition set_correlation_real ::
  "Context \<Rightarrow> UncertainReal \<Rightarrow> UncertainReal \<Rightarrow> real \<Rightarrow> error + Context" where
  "set_correlation_real c x1 x2 r =
     (if is_elementary x1 \<and> is_elementary x2
      then (case (ur_node x1, ur_node x2) of
              (Some (LeafRef ln1), Some (LeafRef ln2)) \<Rightarrow>
                (if \<not> leaf_independent (leaves c ln1) \<and> \<not> leaf_independent (leaves c ln2)
                 then (if ln1 = ln2 \<and> r \<noteq> 1
                       then Inl (RuntimeError ''value should be 1.0'')
                       else Inr (set_leaf_correlation
                                   (set_leaf_correlation c ln1 ln2 r) ln2 ln1 r))
                 else Inl (RuntimeError ''`set_correlation` called on independent node''))
            | _ \<Rightarrow> Inl AttributeError)
      else Inl (RuntimeError ''Arguments must be elementary uncertain numbers''))"

definition get_correlation_real ::
  "Context \<Rightarrow> UncertainReal \<Rightarrow> UncertainReal \<Rightarrow> error + real" where
  "get_correlation_real c x1 x2 =
     (if is_elementary x1 \<and> is_elementary x2
      then (case (ur_node x1, ur_node x2) of
              (Some (LeafRef ln1), Some (LeafRef ln2)) \<Rightarrow>
                (if ln1 = ln2 then Inr 1 else Inr (correlation_get c ln1 ln2))
            | _ \<Rightarrow> Inl AttributeError)
      else (let v1 = std_variance_real c x1;
                v2 = std_variance_real c x2;
                num = std_covariance_real c x1 x2
            in case math_sqrt (v1 * v2) of
                 Inl e \<Rightarrow> Inl e
               | Inr den \<Rightarrow>
                   (if num \<noteq> 0
                    then (if den = 0 then Inl (ZeroDivisionError ''float division by zero'')
                          else Inr (num / den))
                    else Inr 0)))"

section \<open>Uncertain complex numbers\<close>










section \<open>Properties\<close>

text \<open>The definitions unfolded to run the model on concrete inputs.\<close>

lemmas eval_defs =
  then_do_def UncertainReal_elementary_def next_elementary_id_def new_leaf_def Context_init_def
  UncertainReal_init_def set_correlation_real_def set_leaf_correlation_def ureal_add_def
  df_prop_def v_prop_def u_prop_def welch_satterthwaite_def is_uncertain_real_constant_def
  vector_keys_def vector_values_def ws_file_variance_def in_cpts_map_def Let_def
  std_variance_real_def correlation_get_def math_sqrt_def node_u_def node_df_def

subsection \<open>Declaring an elementary uncertain real number\<close>

lemma float_ge_not_lt: "float_ge a b \<Longrightarrow> \<not> float_lt a b"
  by (induction a b rule: float_lt.induct) auto

text \<open>
  C7. \<^verbatim>\<open>UncertainReal.elementary\<close> raises its parameter error (a \<^verbatim>\<open>RuntimeError\<close>)
  exactly when \<open>df < 1\<close> or \<open>u < 0\<close>: it raises in that case, it returns a number in every
  other case, and in particular for \<open>df \<ge> 1\<close> and \<open>u \<ge> 0\<close>.
\<close>

theorem elementary_invalid_parameter:
  "(float_lt df (Fin 1) \<or> u < 0 \<longrightarrow>
      (\<exists>msg. UncertainReal_elementary c x u df label indep = Inl (RuntimeError msg)))
   \<and> (\<not> (float_lt df (Fin 1) \<or> u < 0) \<longrightarrow>
      (\<exists>r. UncertainReal_elementary c x u df label indep = Inr r))
   \<and> (float_ge df (Fin 1) \<and> 0 \<le> u \<longrightarrow>
      (\<exists>r. UncertainReal_elementary c x u df label indep = Inr r))"
  by (auto simp: UncertainReal_elementary_def Let_def split: prod.splits dest: float_ge_not_lt)

theorem elementary_invalid_parameter_witness:
  "(\<exists>msg. UncertainReal_elementary Context_init 1 1 (Fin 0) None False
            = Inl (RuntimeError msg))
   \<and> (\<exists>msg. UncertainReal_elementary Context_init 1 (- 1) (Fin 3) None False
            = Inl (RuntimeError msg))
   \<and> (\<exists>r. UncertainReal_elementary Context_init 1 (1 / 2) (Fin 3) None False = Inr r)
   \<and> (\<exists>r. UncertainReal_elementary Context_init 1 (1 / 2) PInf None False = Inr r)"
  using elementary_invalid_parameter [of "Fin 0" 1 Context_init 1 None False]
        elementary_invalid_parameter [of "Fin 3" "- 1" Context_init 1 None False]
        elementary_invalid_parameter [of "Fin 3" "1 / 2" Context_init 1 None False]
        elementary_invalid_parameter [of PInf "1 / 2" Context_init 1 None False]
  by simp

text \<open>
  C2. For \<open>u \<ge> 0\<close> and \<open>df \<ge> 1\<close> the number declared by \<open>elementary(v,u,df)\<close> has the
  value \<open>v\<close>, the standard uncertainty \<open>u\<close>, the degrees of freedom \<open>df\<close> and the variance
  \<open>u*u\<close>; the variance is the same before and after the uncertainty has been cached.
\<close>

theorem elementary_accessors:
  assumes "0 \<le> u" and "float_ge df (Fin 1)"
  shows "\<exists>c' un. UncertainReal_elementary c v u df label indep = Inr (c', un)
           \<and> ur_x un = v
           \<and> u_prop c' un = Inr (u, un\<lparr>ur_u := Some u\<rparr>)
           \<and> df_prop c' un = Inr (df, un)
           \<and> v_prop c' un = Inr (u * u, un\<lparr>ur_u := Some u\<rparr>)
           \<and> v_prop c' (un\<lparr>ur_u := Some u\<rparr>) = Inr (u * u, un\<lparr>ur_u := Some u\<rparr>)"
  using assms
  by (auto simp: UncertainReal_elementary_def Let_def next_elementary_id_def new_leaf_def
        UncertainReal_init_def u_prop_def v_prop_def df_prop_def node_u_def node_df_def
        dest: float_ge_not_lt)

theorem elementary_accessors_witness:
  "(0::real) \<le> 1 / 2 \<and> float_ge (Fin 3) (Fin 1)
   \<and> (\<exists>c' un. UncertainReal_elementary Context_init 5 (1 / 2) (Fin 3) None False = Inr (c', un)
           \<and> ur_x un = 5
           \<and> u_prop c' un = Inr (1 / 2, un\<lparr>ur_u := Some (1 / 2)\<rparr>)
           \<and> df_prop c' un = Inr (Fin 3, un)
           \<and> v_prop c' un = Inr (1 / 4, un\<lparr>ur_u := Some (1 / 2)\<rparr>))"
  using elementary_accessors [of "1 / 2" "Fin 3" Context_init 5 None False]
  by auto

subsection \<open>Magnitude\<close>

text \<open>
  C8. The magnitude of an uncertain real number with value \<open>0\<close> raises (a
  \<^verbatim>\<open>ZeroDivisionError\<close>); for any other value it returns a number with value \<open>|x|\<close>
  whose three vectors are those of the argument scaled by the sign of \<open>x\<close>.
\<close>

theorem magnitude_zero_or_abs:
  "(ur_x a = 0 \<longrightarrow> (\<exists>msg. ureal_magnitude a = Inl (ZeroDivisionError msg)))
   \<and> (ur_x a \<noteq> 0 \<longrightarrow>
        (\<exists>r. ureal_magnitude a = Inr r
           \<and> ur_x r = \<bar>ur_x a\<bar>
           \<and> u_components r = scale_vector (u_components a) (sgn (ur_x a))
           \<and> d_components r = scale_vector (d_components a) (sgn (ur_x a))
           \<and> i_components r = scale_vector (i_components a) (sgn (ur_x a))))"
  by (auto simp: ureal_magnitude_def Let_def UncertainReal_init_def sgn_real_def)

theorem magnitude_zero_or_abs_witness:
  "(\<exists>msg. ureal_magnitude (UncertainReal_constant 0 None) = Inl (ZeroDivisionError msg))
   \<and> (\<exists>r. ureal_magnitude (UncertainReal_init None (- 2) [(0, 3)] [] [] None) = Inr r
           \<and> ur_x r = 2 \<and> u_components r = [(0, - 3)])"
  using magnitude_zero_or_abs [of "UncertainReal_constant 0 None"]
        magnitude_zero_or_abs [of "UncertainReal_init None (- 2) [(0, 3)] [] [] None"]
  by (auto simp: UncertainReal_constant_def UncertainReal_init_def scale_vector_def)

subsection \<open>Powers with a plain exponent\<close>

text \<open>
  C10. With the plain exponent \<open>0\<close>, \<^verbatim>\<open>_pow\<close> returns the plain number \<open>1.0\<close>; with the
  plain exponent \<open>1\<close> it returns its left operand itself; with any other plain exponent
  \<open>r\<close> a result is a new uncertain number, with the value \<open>x ** r\<close> and the vectors of the
  operand scaled by \<open>r * x ** (r - 1)\<close>.
\<close>

theorem pow_plain_exponent:
  "ureal_pow x (Number 0) = Inr (PlainFloat 1)
   \<and> ureal_pow x (Number 1) = Inr (Uncertain x)
   \<and> (r \<noteq> 0 \<and> r \<noteq> 1 \<and> ureal_pow x (Number r) = Inr res \<longrightarrow>
        (\<exists>y p. res = Uncertain y
           \<and> float_pow (ur_x x) r = Inr (ur_x y)
           \<and> float_pow (ur_x x) (r - 1) = Inr p
           \<and> y = UncertainReal_init (ur_context x) (ur_x y)
                   (scale_vector (u_components x) (r * p))
                   (scale_vector (d_components x) (r * p))
                   (scale_vector (i_components x) (r * p)) None))"
  by (auto simp: ureal_pow_def Let_def UncertainReal_init_def split: sum.splits)

theorem pow_plain_exponent_witness:
  "ureal_pow (UncertainReal_init None 3 [(0, 1 / 10)] [] [] (Some (LeafRef 0))) (Number 2)
     = Inr (Uncertain (UncertainReal_init None 9 [(0, 6 / 10)] [] [] None))
   \<and> (\<exists>y p. Uncertain (UncertainReal_init None 9 [(0, 6 / 10)] [] [] None) = Uncertain y
           \<and> float_pow 3 2 = Inr (ur_x y) \<and> float_pow 3 1 = Inr p)"
  using pow_plain_exponent [where r = 2
          and x = "UncertainReal_init None 3 [(0, 1 / 10)] [] [] (Some (LeafRef 0))"
          and res = "Uncertain (UncertainReal_init None 9 [(0, 6 / 10)] [] [] None)"]
  by (auto simp: ureal_pow_def float_pow_def UncertainReal_init_def scale_vector_def Let_def)

subsection \<open>Registration as an intermediate result\<close>

text \<open>
  C9. When a number has been registered as an intermediate result, registering it again
  (under any label) changes neither the number nor the registry: no second self-entry
  in the vector of intermediate components, no second intermediate id.
\<close>

theorem intermediate_idempotent:
  assumes "UncertainReal_intermediate c un l1 = Inr (c1, un1)"
  shows "UncertainReal_intermediate c1 un1 l2 = Inr (c1, un1)"
  using assms
  by (auto simp: UncertainReal_intermediate_def Let_def next_intermediate_id_def
        split: if_splits sum.splits prod.splits)

theorem intermediate_idempotent_witness:
  "\<exists>c1 un1.
     UncertainReal_intermediate Context_init
       (UncertainReal_init None 7 [(0, 1)] [] [] None) None = Inr (c1, un1)
     \<and> UncertainReal_intermediate c1 un1 (Some ''y'') = Inr (c1, un1)
     \<and> i_components un1 = [(0, 1)] \<and> next_intermediate c1 = 1"
proof -
  obtain c1 un1 where
    h: "UncertainReal_intermediate Context_init
          (UncertainReal_init None 7 [(0, 1)] [] [] None) None = Inr (c1, un1)"
    and p: "i_components un1 = [(0, 1)]" "next_intermediate c1 = 1"
    by (simp add: UncertainReal_intermediate_def next_intermediate_id_def eval_defs)
  from intermediate_idempotent [OF h, of "Some ''y''"] h p show ?thesis by blast
qed

subsection \<open>Correlation round trip\<close>

text \<open>
  C6. For two elementary numbers on different leaves, both dependent, and any
  coefficient \<open>r\<close> (in particular any \<open>r\<close> in \<open>[-1,1]\<close>), \<^verbatim>\<open>set_correlation_real\<close>
  succeeds, and afterwards \<^verbatim>\<open>get_correlation_real\<close> returns \<open>r\<close> for the pair in
  either order.
\<close>

theorem correlation_round_trip:
  assumes "is_elementary x1" and "is_elementary x2"
    and "ur_node x1 = Some (LeafRef ln1)" and "ur_node x2 = Some (LeafRef ln2)"
    and "ln1 \<noteq> ln2"
    and "\<not> leaf_independent (leaves c ln1)" and "\<not> leaf_independent (leaves c ln2)"
  shows "\<exists>c'. set_correlation_real c x1 x2 r = Inr c'
           \<and> get_correlation_real c' x1 x2 = Inr r
           \<and> get_correlation_real c' x2 x1 = Inr r"
  using assms
  by (simp add: set_correlation_real_def get_correlation_real_def set_leaf_correlation_def
        correlation_get_def)

theorem correlation_round_trip_witness:
  "\<exists>c1 x1 c2 x2 c3.
     UncertainReal_elementary Context_init 1 1 PInf None False = Inr (c1, x1)
     \<and> UncertainReal_elementary c1 2 1 PInf None False = Inr (c2, x2)
     \<and> set_correlation_real c2 x1 x2 (1 / 2) = Inr c3
     \<and> get_correlation_real c3 x1 x2 = Inr (1 / 2)
     \<and> get_correlation_real c3 x2 x1 = Inr (1 / 2)"
proof -
  let ?x1 = "UncertainReal_init None 1 [] [(0, 1)] [] (Some (LeafRef 0))"
  let ?x2 = "UncertainReal_init None 2 [] [(1, 1)] [] (Some (LeafRef 1))"
  let ?c1 = "new_leaf (Context_init\<lparr>next_elementary := 1\<rparr>) 0 None 1 PInf False"
  let ?c2 = "new_leaf (?c1\<lparr>next_elementary := 2\<rparr>) 1 None 1 PInf False"
  have e1: "UncertainReal_elementary Context_init 1 1 PInf None False = Inr (?c1, ?x1)"
    by (simp add: UncertainReal_elementary_def next_elementary_id_def Context_init_def)
  have e2: "UncertainReal_elementary ?c1 2 1 PInf None False = Inr (?c2, ?x2)"
    by (simp add: UncertainReal_elementary_def next_elementary_id_def Context_init_def
          new_leaf_def)
  have "\<exists>c'. set_correlation_real ?c2 ?x1 ?x2 (1 / 2) = Inr c'
           \<and> get_correlation_real c' ?x1 ?x2 = Inr (1 / 2)
           \<and> get_correlation_real c' ?x2 ?x1 = Inr (1 / 2)"
    by (rule correlation_round_trip [where ?ln1.0 = 0 and ?ln2.0 = 1])
       (simp_all add: UncertainReal_init_def new_leaf_def)
  with e1 e2 show ?thesis by blast
qed

subsection \<open>Additivity of the variance\<close>











subsection \<open>Operands from different contexts\<close>

text \<open>
  C5. \<^verbatim>\<open>_add\<close> does not compare the contexts of its operands: for two numbers whose
  \<^verbatim>\<open>_context\<close> slots refer to different context objects it returns a sum that carries
  the context of the left operand. Only \<^verbatim>\<open>_atan2_re_re\<close> asserts that the contexts
  agree.
\<close>

theorem add_ignores_context:
  "ureal_add (UncertainReal_init (Some 1) 1 [] [(0, 1)] [] (Some (LeafRef 0)))
     (UReal (UncertainReal_init (Some 2) 2 [] [(1, 1)] [] (Some (LeafRef 1))))
   = Inr (UncertainReal_init (Some 1) 3 [] [(0, 1), (1, 1)] [] None)"
  by (simp add: ureal_add_def UncertainReal_init_def)

lemma atan2_checks_context:
  "ureal_atan2_re_re (UncertainReal_init (Some 1) 1 [] [(0, 1)] [] (Some (LeafRef 0)))
     (UncertainReal_init (Some 2) 2 [] [(1, 1)] [] (Some (LeafRef 1)))
   = Inl AssertionError"
  by (simp add: ureal_atan2_re_re_def UncertainReal_init_def)

lemma add_never_raises: "\<exists>r. ureal_add lhs rhs = Inr r"
  by (cases rhs) (simp_all add: ureal_add_def)

lemma arithmetic_ignores_context:
  "ureal_sub (UncertainReal_init (Some 1) 1 [] [(0, 1)] [] (Some (LeafRef 0)))
     (UReal (UncertainReal_init (Some 2) 2 [] [(1, 1)] [] (Some (LeafRef 1))))
   = Inr (UncertainReal_init (Some 1) (- 1) [] [(0, 1), (1, - 1)] [] None)"
  "ureal_mul (UncertainReal_init (Some 1) 1 [] [(0, 1)] [] (Some (LeafRef 0)))
     (UReal (UncertainReal_init (Some 2) 2 [] [(1, 1)] [] (Some (LeafRef 1))))
   = Inr (UncertainReal_init (Some 1) 2 [] [(0, 2), (1, 1)] [] None)"
  "ureal_div (UncertainReal_init (Some 1) 1 [] [(0, 1)] [] (Some (LeafRef 0)))
     (UReal (UncertainReal_init (Some 2) 2 [] [(1, 1)] [] (Some (LeafRef 1))))
   = Inr (UncertainReal_init (Some 1) (1 / 2) [] [(0, 1 / 2), (1, - 1 / 4)] [] None)"
  by (simp_all add: ureal_sub_def ureal_mul_def ureal_div_def UncertainReal_init_def
        scale_vector_def Let_def)

subsection \<open>A correlation that Welch-Satterthwaite cannot group\<close>

text \<open>
  C1. The scenario: \<open>x1\<close>, \<open>x2\<close>, \<open>x3\<close> are elementary and dependent, with 5 degrees of
  freedom each and in no ensemble; a correlation is set between \<open>x1\<close> and \<open>x3\<close>;
  \<open>x4 = x1 + x2\<close>, \<open>x5 = x2 + x3\<close>. Asking for the degrees of freedom of \<open>x4 + x5\<close> reaches
  the branch that sets \<^verbatim>\<open>df = nan\<close> and then executes \<^verbatim>\<open>assert False\<close>: the call
  raises \<^verbatim>\<open>AssertionError\<close> and returns nothing.
\<close>

theorem illegal_correlation_raises:
  "then_do (UncertainReal_elementary Context_init 1 1 (Fin 5) None False) (\<lambda>(c1, x1).
   then_do (UncertainReal_elementary c1 1 1 (Fin 5) None False) (\<lambda>(c2, x2).
   then_do (UncertainReal_elementary c2 1 1 (Fin 5) None False) (\<lambda>(c3, x3).
   then_do (set_correlation_real c3 x1 x3 (1 / 2)) (\<lambda>c4.
   then_do (ureal_add x1 (UReal x2)) (\<lambda>x4.
   then_do (ureal_add x2 (UReal x3)) (\<lambda>x5.
   then_do (ureal_add x4 (UReal x5)) (\<lambda>x6.
     df_prop c4 x6))))))) = Inl AssertionError"
  by (simp add: eval_defs)

lemma illegal_correlation_variance:
  "then_do (UncertainReal_elementary Context_init 1 1 (Fin 5) None False) (\<lambda>(c1, x1).
   then_do (UncertainReal_elementary c1 1 1 (Fin 5) None False) (\<lambda>(c2, x2).
   then_do (UncertainReal_elementary c2 1 1 (Fin 5) None False) (\<lambda>(c3, x3).
   then_do (set_correlation_real c3 x1 x3 (1 / 2)) (\<lambda>c4.
   then_do (ureal_add x1 (UReal x2)) (\<lambda>x4.
   then_do (ureal_add x2 (UReal x3)) (\<lambda>x5.
   then_do (ureal_add x4 (UReal x5)) (\<lambda>x6.
     Inr (ur_x x6, std_variance_real c4 x6)))))))) = Inr (4, 7)"
  by (simp add: eval_defs cross_terms_def)

subsection \<open>The variance-covariance matrix of an uncertain complex number\<close>








end
